theory Spec2Isabelle
  imports Complex_Main
begin

section \<open>Coastal Risk Predictor: a shallow embedding of app2.py\<close>

text \<open>
  The application is one Streamlit script. Each user action runs the script from the
  top: the session state is initialised, the two models are loaded (once per process,
  the result is cached), the script stops when both models are missing, and otherwise
  the page named in the session state is rendered. The three functions of the script,
  \<^verbatim>\<open>load_models\<close>, \<^verbatim>\<open>make_predictions\<close> and \<^verbatim>\<open>display_prediction_results\<close>,
  and the page dispatch at the top level are translated below in the order of the
  source.
\<close>

subsection \<open>Values\<close>

text \<open>
  A Python float is a finite binary fraction, one of the two infinities, or NaN. A finite
  float is modelled by the real number it denotes: the comparisons of the script are
  exact on finite floats, and the thresholds 2.5 and 1.5 are floats themselves.
\<close>

datatype pyfloat = Finite real | PosInf | NegInf | NaN

text \<open>\<^verbatim>\<open>x >= c\<close> for a finite constant \<open>c\<close>: every comparison with NaN is false.\<close>

fun fge :: "pyfloat \<Rightarrow> real \<Rightarrow> bool" where
  "fge (Finite x) c = (x \<ge> c)"
| "fge PosInf c = True"
| "fge NegInf c = False"
| "fge NaN c = False"

text \<open>
  The emoji of the source are written as their UTF-8 bytes: U+1F534 (red circle),
  U+1F7E1 (yellow circle), U+1F7E2 (green circle) and U+274C (cross mark).
\<close>

definition red_circle :: string where
  "red_circle = [CHR 0xF0, CHR 0x9F, CHR 0x94, CHR 0xB4]"

definition yellow_circle :: string where
  "yellow_circle = [CHR 0xF0, CHR 0x9F, CHR 0x9F, CHR 0xA1]"

definition green_circle :: string where
  "green_circle = [CHR 0xF0, CHR 0x9F, CHR 0x9F, CHR 0xA2]"

definition cross_mark :: string where
  "cross_mark = [CHR 0xE2, CHR 0x9D, CHR 0x8C]"

subsection \<open>The models\<close>

text \<open>
  A model is an external object; the script only evaluates
  \<^verbatim>\<open>model.predict(input_data)[0]\<close> on the one-row frame \<^verbatim>\<open>[[lat, lon]]\<close>. The
  evaluation either returns a value or raises an exception of class \<^verbatim>\<open>Exception\<close>,
  the class the handlers of the script name; \<open>Raises e\<close> carries \<^verbatim>\<open>str(e)\<close>.
\<close>

datatype 'a outcome = Returns 'a | Raises string

type_synonym 'a model = "real \<times> real \<Rightarrow> 'a outcome"

subsection \<open>\<^verbatim>\<open>make_predictions\<close>\<close>

text \<open>
  The dictionary \<^verbatim>\<open>results\<close> has at most the keys \<^verbatim>\<open>'tide'\<close> and \<^verbatim>\<open>'coastal'\<close>. An
  entry is a dictionary with \<^verbatim>\<open>'success': True\<close> and the fields of the signal, or with
  \<^verbatim>\<open>'success': False\<close> and \<^verbatim>\<open>'error'\<close>.
\<close>

record tide_info =
  tide_score :: pyfloat
  tide_level :: string
  tide_color :: string
  tide_class :: string

record coastal_info =
  coastal_level :: string
  coastal_color :: string
  coastal_class :: string

datatype 'a entry = Success 'a | Failure string

record results =
  tide :: "tide_info entry option"
  coastal :: "coastal_info entry option"

text \<open>The body of the first \<^verbatim>\<open>try\<close>: the score converted to a risk level.\<close>

definition tide_entry :: "pyfloat \<Rightarrow> tide_info" where
  "tide_entry tide_pred =
     (if fge tide_pred 2.5 then
        \<lparr>tide_score = tide_pred, tide_level = ''High'',
         tide_color = red_circle, tide_class = ''risk-high''\<rparr>
      else if fge tide_pred 1.5 then
        \<lparr>tide_score = tide_pred, tide_level = ''Moderate'',
         tide_color = yellow_circle, tide_class = ''risk-moderate''\<rparr>
      else
        \<lparr>tide_score = tide_pred, tide_level = ''Low'',
         tide_color = green_circle, tide_class = ''risk-low''\<rparr>)"

text \<open>The body of the second \<^verbatim>\<open>try\<close>: the label keeps its text and gets a colour and a class.\<close>

definition coastal_entry :: "string \<Rightarrow> coastal_info" where
  "coastal_entry coastal_pred =
     (if coastal_pred = ''High'' then
        \<lparr>coastal_level = coastal_pred, coastal_color = red_circle,
         coastal_class = ''risk-high''\<rparr>
      else if coastal_pred = ''Moderate'' then
        \<lparr>coastal_level = coastal_pred, coastal_color = yellow_circle,
         coastal_class = ''risk-moderate''\<rparr>
      else
        \<lparr>coastal_level = coastal_pred, coastal_color = green_circle,
         coastal_class = ''risk-low''\<rparr>)"

text \<open>
  \<^verbatim>\<open>try: ... except Exception as e: results[key] = {'success': False, 'error': str(e)}\<close>
\<close>

definition attempt :: "('a \<Rightarrow> 'b) \<Rightarrow> 'a outcome \<Rightarrow> 'b entry" where
  "attempt f r = (case r of Returns v \<Rightarrow> Success (f v) | Raises e \<Rightarrow> Failure e)"

definition make_predictions ::
  "pyfloat model option \<Rightarrow> string model option \<Rightarrow> real \<Rightarrow> real \<Rightarrow> results" where
  "make_predictions tide_model coastal_model lat lon =
     \<lparr>tide =
        (case tide_model of
           None \<Rightarrow> None
         | Some m \<Rightarrow> Some (attempt tide_entry (m (lat, lon)))),
      coastal =
        (case coastal_model of
           None \<Rightarrow> None
         | Some m \<Rightarrow> Some (attempt coastal_entry (m (lat, lon))))\<rparr>"

subsection \<open>\<^verbatim>\<open>display_prediction_results\<close>\<close>

text \<open>
  The function renders a header, a card for each signal and, below them, the overall
  assessment. What is rendered is kept as data: a signal's card is its entry, or nothing
  for the grey card \<^verbatim>\<open>Model Unavailable\<close>; the overall card is its class, its title and
  its advisory text, or nothing when the card is not rendered.
\<close>

record overall_info =
  overall_class :: string
  overall_text :: string
  overall_desc :: string

record display =
  tide_card :: "tide_info option"
  coastal_card :: "coastal_info option"
  overall_card :: "overall_info option"

text \<open>\<^verbatim>\<open>key in results and results[key]['success']\<close>, giving the entry when it holds.\<close>

fun succeeded :: "'a entry option \<Rightarrow> 'a option" where
  "succeeded (Some (Success v)) = Some v"
| "succeeded (Some (Failure e)) = None"
| "succeeded None = None"

definition overall_assessment :: "pyfloat \<Rightarrow> string \<Rightarrow> overall_info" where
  "overall_assessment tide_risk coastal_risk =
     (if fge tide_risk 2.5 \<or> coastal_risk = ''High'' then
        \<lparr>overall_class = ''risk-high'',
         overall_text = red_circle @ '' CRITICAL RISK'',
         overall_desc = ''Avoid all coastal activities immediately''\<rparr>
      else if fge tide_risk 1.5 \<or> coastal_risk = ''Moderate'' then
        \<lparr>overall_class = ''risk-moderate'',
         overall_text = yellow_circle @ '' MODERATE RISK'',
         overall_desc = ''Exercise extreme caution near coastal areas''\<rparr>
      else
        \<lparr>overall_class = ''risk-low'',
         overall_text = green_circle @ '' LOW RISK'',
         overall_desc = ''Generally safe conditions for coastal activities''\<rparr>)"

definition display_prediction_results :: "results \<Rightarrow> display" where
  "display_prediction_results r =
     \<lparr>tide_card = succeeded (tide r),
      coastal_card = succeeded (coastal r),
      overall_card =
        (case (succeeded (tide r), succeeded (coastal r)) of
           (Some t, Some c) \<Rightarrow> Some (overall_assessment (tide_score t) (coastal_level c))
         | _ \<Rightarrow> None)\<rparr>"

subsection \<open>\<^verbatim>\<open>load_models\<close>\<close>

text \<open>
  The model store holds two files. A file is absent (\<^verbatim>\<open>os.path.exists\<close> is false), or
  it exists and \<^verbatim>\<open>joblib.load\<close> returns a model, or it exists and \<^verbatim>\<open>joblib.load\<close>
  raises an exception with the message given.
\<close>

datatype 'm artifact = Absent | Loadable 'm | Unloadable string

record store =
  tide_file :: "pyfloat model artifact"
  coastal_file :: "string model artifact"

text \<open>
  The state of \<^verbatim>\<open>load_models\<close>: its two local variables, the files handed to
  \<^verbatim>\<open>joblib.load\<close> so far, and the messages shown with \<^verbatim>\<open>st.error\<close>.
\<close>

record loader =
  tide_model :: "pyfloat model option"
  coastal_model :: "string model option"
  load_calls :: "string list"
  load_errors :: "string list"

text \<open>
  The two statements of the \<^verbatim>\<open>try\<close> block. An exception leaves the statement with the
  state reached when it was raised: the call is made, the variable is not assigned.
\<close>

definition load_tide :: "store \<Rightarrow> loader \<Rightarrow> (string \<times> loader) + loader" where
  "load_tide st l =
     (case tide_file st of
        Loadable m \<Rightarrow>
          Inr (l\<lparr>tide_model := Some m,
                 load_calls := load_calls l @ [''tide_prediction.joblib'']\<rparr>)
      | Unloadable e \<Rightarrow>
          Inl (e, l\<lparr>load_calls := load_calls l @ [''tide_prediction.joblib'']\<rparr>)
      | Absent \<Rightarrow>
          Inr (l\<lparr>load_errors := load_errors l @
                 [cross_mark @ '' tide_prediction.joblib not found'']\<rparr>))"

definition load_coastal :: "store \<Rightarrow> loader \<Rightarrow> (string \<times> loader) + loader" where
  "load_coastal st l =
     (case coastal_file st of
        Loadable m \<Rightarrow>
          Inr (l\<lparr>coastal_model := Some m,
                 load_calls := load_calls l @ [''coastal_risk_model.joblib'']\<rparr>)
      | Unloadable e \<Rightarrow>
          Inl (e, l\<lparr>load_calls := load_calls l @ [''coastal_risk_model.joblib'']\<rparr>)
      | Absent \<Rightarrow>
          Inr (l\<lparr>load_errors := load_errors l @
                 [cross_mark @ '' coastal_risk_model.joblib not found'']\<rparr>))"

definition load_models :: "store \<Rightarrow> loader" where
  "load_models st =
     (let l0 = \<lparr>tide_model = None, coastal_model = None, load_calls = [], load_errors = []\<rparr>;
          body = (case load_tide st l0 of Inl x \<Rightarrow> Inl x | Inr l1 \<Rightarrow> load_coastal st l1)
      in case body of
           Inr l \<Rightarrow> l
         | Inl (e, l) \<Rightarrow> l\<lparr>load_errors := load_errors l @ [''Error loading models: '' @ e]\<rparr>)"

subsection \<open>The script: session state, widgets and pages\<close>

text \<open>
  The session state has three keys, set on the first run when they are missing.
  The default coordinate is Dublin.
\<close>

record session =
  page :: string
  latitude :: real
  longitude :: real

definition initial_session :: session where
  "initial_session = \<lparr>page = ''home'', latitude = 53.3498, longitude = -6.2603\<rparr>"

text \<open>
  What the widgets return in one run of the script: whether a button was pressed, the
  value of \<^verbatim>\<open>map_data['last_clicked']\<close> (\<^verbatim>\<open>None\<close>, or a dictionary with the keys
  \<^verbatim>\<open>'lat'\<close> and \<^verbatim>\<open>'lng'\<close>), the values of the two number inputs, and whether the import of
  \<^verbatim>\<open>folium\<close> and \<^verbatim>\<open>streamlit_folium\<close> succeeds. The button \<^verbatim>\<open>Analyze Coastal Risks\<close>
  exists on the map page and on the coordinates page; one run renders one page.
\<close>

record click =
  click_lat :: real
  click_lng :: real

record widgets =
  map_button :: bool
  coordinates_button :: bool
  nav_home :: bool
  nav_home_coord :: bool
  folium_installed :: bool
  last_clicked :: "click option"
  analyze_button :: bool
  latitude_input :: real
  longitude_input :: real

text \<open>
  How a run ends: with \<^verbatim>\<open>st.stop()\<close> after the notice \<^verbatim>\<open>Model Files Missing\<close>, with
  \<^verbatim>\<open>st.rerun()\<close>, or at the footer, with the report when one was rendered.
\<close>

datatype ending = Blocked | Rerun | Rendered "display option"

text \<open>The truth value of a float: \<^verbatim>\<open>0.0\<close> is false, every other finite float is true.\<close>

definition truthy :: "real \<Rightarrow> bool" where
  "truthy x = (x \<noteq> 0)"

text \<open>
  The map click handler. The result says whether the handler stored the coordinate and
  called \<^verbatim>\<open>st.rerun()\<close>.
\<close>

definition map_click :: "click option \<Rightarrow> session \<Rightarrow> session \<times> bool" where
  "map_click clicked s =
     (case clicked of
        None \<Rightarrow> (s, False)
      | Some c \<Rightarrow>
          (let clicked_lat = click_lat c; clicked_lng = click_lng c
           in if truthy clicked_lat \<and> truthy clicked_lng
              then (s\<lparr>latitude := clicked_lat, longitude := clicked_lng\<rparr>, True)
              else (s, False)))"

definition home_page :: "session \<Rightarrow> widgets \<Rightarrow> session \<times> ending" where
  "home_page s w =
     (if map_button w then (s\<lparr>page := ''map''\<rparr>, Rerun)
      else if coordinates_button w then (s\<lparr>page := ''coordinates''\<rparr>, Rerun)
      else (s, Rendered None))"

definition map_page ::
  "pyfloat model option \<Rightarrow> string model option \<Rightarrow> session \<Rightarrow> widgets \<Rightarrow> session \<times> ending" where
  "map_page tm cm s w =
     (if nav_home w then (s\<lparr>page := ''home''\<rparr>, Rerun)
      else if \<not> folium_installed w then (s, Rendered None)
      else
        (case map_click (last_clicked w) s of
           (s', True) \<Rightarrow> (s', Rerun)
         | (s', False) \<Rightarrow>
             if analyze_button w
             then (s', Rendered (Some (display_prediction_results
                          (make_predictions tm cm (latitude s') (longitude s')))))
             else (s', Rendered None)))"

definition coordinates_page ::
  "pyfloat model option \<Rightarrow> string model option \<Rightarrow> session \<Rightarrow> widgets \<Rightarrow> session \<times> ending" where
  "coordinates_page tm cm s w =
     (if nav_home_coord w then (s\<lparr>page := ''home''\<rparr>, Rerun)
      else
        (let latitude' = latitude_input w; longitude' = longitude_input w;
             s' = s\<lparr>latitude := latitude', longitude := longitude'\<rparr>
         in if analyze_button w
            then if - 90 \<le> latitude' \<and> latitude' \<le> 90 \<and> - 180 \<le> longitude' \<and> longitude' \<le> 180
                 then (s', Rendered (Some (display_prediction_results
                              (make_predictions tm cm latitude' longitude'))))
                 else (s', Rendered None)
            else (s', Rendered None)))"

text \<open>
  One run of the script, after the models were loaded. \<open>Option.is_none\<close> is the test
  \<^verbatim>\<open>is None\<close>.
\<close>

definition script ::
  "pyfloat model option \<Rightarrow> string model option \<Rightarrow> session \<Rightarrow> widgets \<Rightarrow> session \<times> ending" where
  "script tm cm s w =
     (if Option.is_none tm \<and> Option.is_none cm then (s, Blocked)
      else if page s = ''home'' then home_page s w
      else if page s = ''map'' then map_page tm cm s w
      else if page s = ''coordinates'' then coordinates_page tm cm s w
      else (s, Rendered None))"

text \<open>
  A session on a store: \<^verbatim>\<open>load_models\<close> is cached, so every run of the session sees
  the models of the first load. The runs are taken in order, each from the session state
  the one before left; the result is the final state and the endings of the runs.
\<close>

fun runs ::
  "pyfloat model option \<Rightarrow> string model option \<Rightarrow> session \<Rightarrow> widgets list
   \<Rightarrow> session \<times> ending list" where
  "runs tm cm s [] = (s, [])"
| "runs tm cm s (w # ws) =
     (case script tm cm s w of
        (s', e) \<Rightarrow> (case runs tm cm s' ws of (s'', es) \<Rightarrow> (s'', e # es)))"

definition app :: "store \<Rightarrow> session \<Rightarrow> widgets list \<Rightarrow> session \<times> ending list" where
  "app st s ws = (let l = load_models st in runs (tide_model l) (coastal_model l) s ws)"

subsection \<open>The aggregation by bands, as the specification words it\<close>

text \<open>
  The specification names three risk bands and describes a second way to aggregate:
  from the bands already derived for the two signals instead of the raw score. The
  script has no type of bands; each card carries its band as its style class.
\<close>

datatype band = Low | Moderate | High

definition band_of_class :: "string \<Rightarrow> band option" where
  "band_of_class c =
     (if c = ''risk-high'' then Some High
      else if c = ''risk-moderate'' then Some Moderate
      else if c = ''risk-low'' then Some Low
      else None)"

definition overall_from_bands :: "band \<Rightarrow> band \<Rightarrow> band" where
  "overall_from_bands tide_band coastal_band =
     (if tide_band = High \<or> coastal_band = High then High
      else if tide_band = Moderate \<or> coastal_band = Moderate then Moderate
      else Low)"

section \<open>Properties\<close>

subsection \<open>The overall verdict\<close>

text \<open>
  C1. When both model calls succeed, with the tide score \<open>s\<close> and the coastal label \<open>l\<close>,
  the overall card is rendered, and it is the high card (class \<^verbatim>\<open>risk-high\<close>, title
  \<^verbatim>\<open>CRITICAL RISK\<close>) when \<open>s \<ge> 2.5\<close> or \<open>l\<close> is \<^verbatim>\<open>High\<close>, otherwise the moderate card
  when \<open>s \<ge> 1.5\<close> or \<open>l\<close> is \<^verbatim>\<open>Moderate\<close>, otherwise the low card. Each card carries
  its fixed advisory text. The comparison is Python's, so a NaN score passes neither
  threshold.
\<close>

theorem overall_verdict:
  fixes tm :: "pyfloat model" and cm :: "string model"
  assumes "tm (lat, lon) = Returns s" and "cm (lat, lon) = Returns l"
  shows "overall_card (display_prediction_results (make_predictions (Some tm) (Some cm) lat lon)) =
           Some (if fge s 2.5 \<or> l = ''High'' then
                   \<lparr>overall_class = ''risk-high'',
                    overall_text = red_circle @ '' CRITICAL RISK'',
                    overall_desc = ''Avoid all coastal activities immediately''\<rparr>
                 else if fge s 1.5 \<or> l = ''Moderate'' then
                   \<lparr>overall_class = ''risk-moderate'',
                    overall_text = yellow_circle @ '' MODERATE RISK'',
                    overall_desc = ''Exercise extreme caution near coastal areas''\<rparr>
                 else
                   \<lparr>overall_class = ''risk-low'',
                    overall_text = green_circle @ '' LOW RISK'',
                    overall_desc = ''Generally safe conditions for coastal activities''\<rparr>)"
  using assms
  by (simp add: display_prediction_results_def make_predictions_def attempt_def
      overall_assessment_def tide_entry_def coastal_entry_def)

theorem overall_verdict_witness:
  "overall_card (display_prediction_results
      (make_predictions (Some (\<lambda>p. Returns (Finite 0.5))) (Some (\<lambda>p. Returns ''High''))
         53.3498 (- 6.2603))) =
     Some \<lparr>overall_class = ''risk-high'',
           overall_text = red_circle @ '' CRITICAL RISK'',
           overall_desc = ''Avoid all coastal activities immediately''\<rparr> \<and>
   overall_card (display_prediction_results
      (make_predictions (Some (\<lambda>p. Returns (Finite 1.8))) (Some (\<lambda>p. Returns ''Low''))
         53.3498 (- 6.2603))) =
     Some \<lparr>overall_class = ''risk-moderate'',
           overall_text = yellow_circle @ '' MODERATE RISK'',
           overall_desc = ''Exercise extreme caution near coastal areas''\<rparr> \<and>
   overall_card (display_prediction_results
      (make_predictions (Some (\<lambda>p. Returns (Finite 0.1))) (Some (\<lambda>p. Returns ''Low''))
         53.3498 (- 6.2603))) =
     Some \<lparr>overall_class = ''risk-low'',
           overall_text = green_circle @ '' LOW RISK'',
           overall_desc = ''Generally safe conditions for coastal activities''\<rparr>"
  using overall_verdict [of "\<lambda>p. Returns (Finite 0.5)" "53.3498" "- 6.2603" "Finite 0.5"
      "\<lambda>p. Returns ''High''" "''High''"]
    overall_verdict [of "\<lambda>p. Returns (Finite 1.8)" "53.3498" "- 6.2603" "Finite 1.8"
      "\<lambda>p. Returns ''Low''" "''Low''"]
    overall_verdict [of "\<lambda>p. Returns (Finite 0.1)" "53.3498" "- 6.2603" "Finite 0.1"
      "\<lambda>p. Returns ''Low''" "''Low''"]
  by simp

subsection \<open>The classification of each signal\<close>

text \<open>
  C2. For a finite score \<open>x\<close> returned by the tide model, the tide entry is the high one
  when \<open>x \<ge> 2.5\<close>, the moderate one when \<open>1.5 \<le> x < 2.5\<close> and the low one when
  \<open>x < 1.5\<close>; the lower bounds are inclusive: 2.5 is high, 2.4999 and 1.5 are moderate,
  1.4999 is low. The last two conjuncts take the binary doubles that the literals
  \<^verbatim>\<open>2.4999\<close> and \<^verbatim>\<open>1.4999\<close> denote.
\<close>

theorem tide_classification:
  fixes m :: "pyfloat model"
  assumes "m (lat, lon) = Returns (Finite x)"
  shows "(2.5 \<le> x \<longrightarrow>
            tide (make_predictions (Some m) cm lat lon) =
              Some (Success \<lparr>tide_score = Finite x, tide_level = ''High'',
                             tide_color = red_circle, tide_class = ''risk-high''\<rparr>)) \<and>
         (1.5 \<le> x \<and> x < 2.5 \<longrightarrow>
            tide (make_predictions (Some m) cm lat lon) =
              Some (Success \<lparr>tide_score = Finite x, tide_level = ''Moderate'',
                             tide_color = yellow_circle, tide_class = ''risk-moderate''\<rparr>)) \<and>
         (x < 1.5 \<longrightarrow>
            tide (make_predictions (Some m) cm lat lon) =
              Some (Success \<lparr>tide_score = Finite x, tide_level = ''Low'',
                             tide_color = green_circle, tide_class = ''risk-low''\<rparr>)) \<and>
         tide_level (tide_entry (Finite 2.5)) = ''High'' \<and>
         tide_level (tide_entry (Finite 2.4999)) = ''Moderate'' \<and>
         tide_level (tide_entry (Finite 1.5)) = ''Moderate'' \<and>
         tide_level (tide_entry (Finite 1.4999)) = ''Low'' \<and>
         tide_level (tide_entry (Finite (5629274354231751 / 2 ^ 51))) = ''Moderate'' \<and>
         tide_level (tide_entry (Finite (6754949081093007 / 2 ^ 52))) = ''Low''"
  using assms by (simp add: make_predictions_def attempt_def tide_entry_def)

theorem tide_classification_witness:
  "tide (make_predictions (Some (\<lambda>p. Returns (Finite 2.6))) None 53.3498 (- 6.2603)) =
     Some (Success \<lparr>tide_score = Finite 2.6, tide_level = ''High'',
                    tide_color = red_circle, tide_class = ''risk-high''\<rparr>) \<and>
   tide (make_predictions (Some (\<lambda>p. Returns (Finite 1.8))) None 53.3498 (- 6.2603)) =
     Some (Success \<lparr>tide_score = Finite 1.8, tide_level = ''Moderate'',
                    tide_color = yellow_circle, tide_class = ''risk-moderate''\<rparr>) \<and>
   tide (make_predictions (Some (\<lambda>p. Returns (Finite 0.1))) None 53.3498 (- 6.2603)) =
     Some (Success \<lparr>tide_score = Finite 0.1, tide_level = ''Low'',
                    tide_color = green_circle, tide_class = ''risk-low''\<rparr>)"
  using tide_classification [of "\<lambda>p. Returns (Finite 2.6)" "53.3498" "- 6.2603" "2.6" None]
    tide_classification [of "\<lambda>p. Returns (Finite 1.8)" "53.3498" "- 6.2603" "1.8" None]
    tide_classification [of "\<lambda>p. Returns (Finite 0.1)" "53.3498" "- 6.2603" "0.1" None]
  by simp

text \<open>
  C3. For a label \<open>l\<close> returned by the coastal model, the entry is stored as a success
  (nothing is raised), it keeps the label, and its class and colour are the high ones
  exactly when \<open>l\<close> is \<^verbatim>\<open>High\<close>, the moderate ones exactly when \<open>l\<close> is \<^verbatim>\<open>Moderate\<close>,
  and the low ones for every other string: \<^verbatim>\<open>Low\<close>, the empty string, \<^verbatim>\<open>high\<close> in
  lower case, an unknown word.
\<close>

theorem coastal_classification:
  fixes m :: "string model"
  assumes "m (lat, lon) = Returns l"
  shows "(\<exists>c. coastal (make_predictions tm (Some m) lat lon) = Some (Success c) \<and>
             coastal_level c = l \<and>
             (coastal_class c = ''risk-high'' \<longleftrightarrow> l = ''High'') \<and>
             (coastal_color c = red_circle \<longleftrightarrow> l = ''High'') \<and>
             (coastal_class c = ''risk-moderate'' \<longleftrightarrow> l = ''Moderate'') \<and>
             (coastal_color c = yellow_circle \<longleftrightarrow> l = ''Moderate'') \<and>
             (coastal_class c = ''risk-low'' \<longleftrightarrow> l \<noteq> ''High'' \<and> l \<noteq> ''Moderate'') \<and>
             (coastal_color c = green_circle \<longleftrightarrow> l \<noteq> ''High'' \<and> l \<noteq> ''Moderate'')) \<and>
         coastal_class (coastal_entry ''Low'') = ''risk-low'' \<and>
         coastal_class (coastal_entry []) = ''risk-low'' \<and>
         coastal_class (coastal_entry ''high'') = ''risk-low'' \<and>
         coastal_class (coastal_entry ''Severe'') = ''risk-low''"
  using assms
  by (simp add: make_predictions_def attempt_def coastal_entry_def
      red_circle_def yellow_circle_def green_circle_def)

theorem coastal_classification_witness:
  "\<exists>c. coastal (make_predictions None (Some (\<lambda>p. Returns ''Severe'')) 53.3498 (- 6.2603)) =
          Some (Success c) \<and>
        coastal_level c = ''Severe'' \<and> coastal_class c = ''risk-low'' \<and>
        coastal_color c = green_circle"
  using coastal_classification
    [of "\<lambda>p. Returns ''Severe''" "53.3498" "- 6.2603" "''Severe''" None]
  by auto

subsection \<open>When the overall card is rendered\<close>

text \<open>
  C4. The overall card is rendered if and only if the results hold a successful tide
  entry and a successful coastal entry; for the results of \<^verbatim>\<open>make_predictions\<close> that
  is: both models are loaded and both calls return. With a signal missing or failed
  there is no overall card.
\<close>

theorem overall_present_iff:
  "(overall_card (display_prediction_results r) \<noteq> None) =
     ((\<exists>t. tide r = Some (Success t)) \<and> (\<exists>c. coastal r = Some (Success c))) \<and>
   (overall_card (display_prediction_results (make_predictions tm cm lat lon)) \<noteq> None) =
     ((\<exists>m s. tm = Some m \<and> m (lat, lon) = Returns s) \<and>
      (\<exists>m l. cm = Some m \<and> m (lat, lon) = Returns l)) \<and>
   overall_card (display_prediction_results (make_predictions None cm lat lon)) = None \<and>
   overall_card (display_prediction_results (make_predictions tm None lat lon)) = None \<and>
   overall_card (display_prediction_results (r\<lparr>tide := None\<rparr>)) = None \<and>
   overall_card (display_prediction_results (r\<lparr>coastal := None\<rparr>)) = None \<and>
   overall_card (display_prediction_results (r\<lparr>tide := Some (Failure e)\<rparr>)) = None \<and>
   overall_card (display_prediction_results (r\<lparr>coastal := Some (Failure e)\<rparr>)) = None"
proof -
  have a: "(overall_card (display_prediction_results r') \<noteq> None) =
     ((\<exists>t. tide r' = Some (Success t)) \<and> (\<exists>c. coastal r' = Some (Success c)))" for r'
    by (cases "tide r'" rule: succeeded.cases; cases "coastal r'" rule: succeeded.cases)
      (simp_all add: display_prediction_results_def)
  have b: "(\<exists>t. tide (make_predictions tm cm lat lon) = Some (Success t)) =
      (\<exists>m s. tm = Some m \<and> m (lat, lon) = Returns s)"
    by (auto simp: make_predictions_def attempt_def split: option.splits outcome.splits)
  have c: "(\<exists>c. coastal (make_predictions tm cm lat lon) = Some (Success c)) =
      (\<exists>m l. cm = Some m \<and> m (lat, lon) = Returns l)"
    by (auto simp: make_predictions_def attempt_def split: option.splits outcome.splits)
  have d: "overall_card (display_prediction_results (make_predictions None cm lat lon)) = None"
    "overall_card (display_prediction_results (make_predictions tm None lat lon)) = None"
    by (simp_all add: display_prediction_results_def make_predictions_def
        split: option.splits)
  have e: "overall_card (display_prediction_results (r\<lparr>tide := None\<rparr>)) = None"
    "overall_card (display_prediction_results (r\<lparr>coastal := None\<rparr>)) = None"
    "overall_card (display_prediction_results (r\<lparr>tide := Some (Failure e)\<rparr>)) = None"
    "overall_card (display_prediction_results (r\<lparr>coastal := Some (Failure e)\<rparr>)) = None"
    by (simp_all add: display_prediction_results_def split: option.splits)
  show ?thesis
    unfolding a b c using d e by simp
qed


subsection \<open>Failures of one signal\<close>

text \<open>
  C5. An exception raised by the call of one model is caught where the call is made:
  \<^verbatim>\<open>make_predictions\<close> returns its results, the entry of that signal is a failure that
  carries the message, and its card is the grey one. The entry and the card of the other
  signal are the same whatever the first model is or does.
\<close>

theorem failure_is_per_signal:
  fixes tm tm' :: "pyfloat model option" and cm cm' :: "string model option"
  shows "(\<forall>m e. tm = Some m \<and> m (lat, lon) = Raises e \<longrightarrow>
            tide (make_predictions tm cm lat lon) = Some (Failure e) \<and>
            tide_card (display_prediction_results (make_predictions tm cm lat lon)) = None) \<and>
         (\<forall>m e. cm = Some m \<and> m (lat, lon) = Raises e \<longrightarrow>
            coastal (make_predictions tm cm lat lon) = Some (Failure e) \<and>
            coastal_card (display_prediction_results (make_predictions tm cm lat lon)) = None) \<and>
         coastal (make_predictions tm cm lat lon) = coastal (make_predictions tm' cm lat lon) \<and>
         coastal_card (display_prediction_results (make_predictions tm cm lat lon)) =
           coastal_card (display_prediction_results (make_predictions tm' cm lat lon)) \<and>
         tide (make_predictions tm cm lat lon) = tide (make_predictions tm cm' lat lon) \<and>
         tide_card (display_prediction_results (make_predictions tm cm lat lon)) =
           tide_card (display_prediction_results (make_predictions tm cm' lat lon))"
  by (simp add: make_predictions_def display_prediction_results_def attempt_def)

theorem failure_is_per_signal_witness:
  "tide (make_predictions (Some (\<lambda>p. Raises ''bad input'')) (Some (\<lambda>p. Returns ''High''))
      53.3498 (- 6.2603)) = Some (Failure ''bad input'') \<and>
   tide_card (display_prediction_results
      (make_predictions (Some (\<lambda>p. Raises ''bad input'')) (Some (\<lambda>p. Returns ''High''))
         53.3498 (- 6.2603))) = None \<and>
   coastal (make_predictions (Some (\<lambda>p. Raises ''bad input'')) (Some (\<lambda>p. Returns ''High''))
      53.3498 (- 6.2603)) =
     coastal (make_predictions (Some (\<lambda>p. Returns (Finite 2.6))) (Some (\<lambda>p. Returns ''High''))
      53.3498 (- 6.2603))"
  using failure_is_per_signal
    [of "Some (\<lambda>p. Raises ''bad input'')" "53.3498" "- 6.2603" "Some (\<lambda>p. Returns ''High'')"
      "Some (\<lambda>p. Returns (Finite 2.6))" None]
  by simp

subsection \<open>Aggregation from the raw score and from the bands\<close>

text \<open>
  C7. When both calls succeed, all three cards are rendered and each has a band; the band
  of the overall card, which the script computes from the raw score and the raw label,
  is the one the specification's aggregation gives from the band of the tide card and
  the band of the coastal card.
\<close>

theorem overall_by_bands:
  fixes tm :: "pyfloat model" and cm :: "string model"
  assumes "tm (lat, lon) = Returns s" and "cm (lat, lon) = Returns l"
  shows "\<exists>t c v tb cb.
           tide_card (display_prediction_results
             (make_predictions (Some tm) (Some cm) lat lon)) = Some t \<and>
           coastal_card (display_prediction_results
             (make_predictions (Some tm) (Some cm) lat lon)) = Some c \<and>
           overall_card (display_prediction_results
             (make_predictions (Some tm) (Some cm) lat lon)) = Some v \<and>
           band_of_class (tide_class t) = Some tb \<and>
           band_of_class (coastal_class c) = Some cb \<and>
           band_of_class (overall_class v) = Some (overall_from_bands tb cb)"
  using assms
  by (simp add: display_prediction_results_def make_predictions_def attempt_def
      overall_assessment_def tide_entry_def coastal_entry_def band_of_class_def
      overall_from_bands_def)

theorem overall_by_bands_witness:
  "\<exists>t c v.
     tide_card (display_prediction_results
       (make_predictions (Some (\<lambda>p. Returns (Finite 1.8))) (Some (\<lambda>p. Returns ''Low''))
          53.3498 (- 6.2603))) = Some t \<and>
     coastal_card (display_prediction_results
       (make_predictions (Some (\<lambda>p. Returns (Finite 1.8))) (Some (\<lambda>p. Returns ''Low''))
          53.3498 (- 6.2603))) = Some c \<and>
     overall_card (display_prediction_results
       (make_predictions (Some (\<lambda>p. Returns (Finite 1.8))) (Some (\<lambda>p. Returns ''Low''))
          53.3498 (- 6.2603))) = Some v \<and>
     band_of_class (tide_class t) = Some Moderate \<and>
     band_of_class (coastal_class c) = Some Low \<and>
     band_of_class (overall_class v) = Some (overall_from_bands Moderate Low) \<and>
     overall_from_bands Moderate Low = Moderate"
  using overall_by_bands [of "\<lambda>p. Returns (Finite 1.8)" "53.3498" "- 6.2603" "Finite 1.8"
      "\<lambda>p. Returns ''Low''" "''Low''"]
  by (simp add: display_prediction_results_def make_predictions_def attempt_def
      overall_assessment_def tide_entry_def coastal_entry_def band_of_class_def
      overall_from_bands_def)

subsection \<open>Loading the models and the blocked session\<close>

lemma script_blocked: "script None None s w = (s, Blocked)"
  by (simp add: script_def)

lemma runs_blocked: "runs None None s ws = (s, replicate (length ws) Blocked)"
  by (induction ws) (simp_all add: script_blocked)

lemma map_click_cases:
  "map_click clicked s = (s, False) \<or>
   (\<exists>c. clicked = Some c \<and> map_click clicked s =
      (s\<lparr>latitude := click_lat c, longitude := click_lng c\<rparr>, True))"
  by (cases clicked) (simp_all add: map_click_def Let_def)

lemma script_not_blocked:
  assumes "tm \<noteq> None \<or> cm \<noteq> None"
  shows "snd (script tm cm s w) \<noteq> Blocked"
proof -
  have h: "snd (home_page s w) \<noteq> Blocked"
    by (simp add: home_page_def)
  have m: "snd (map_page tm cm s w) \<noteq> Blocked"
    using map_click_cases [of "last_clicked w" s]
    by (auto simp: map_page_def split: if_splits)
  have c: "snd (coordinates_page tm cm s w) \<noteq> Blocked"
    by (simp add: coordinates_page_def Let_def)
  from assms h m c show ?thesis
    by (auto simp: script_def Option.is_none_def)
qed

lemma runs_not_blocked:
  assumes "tm \<noteq> None \<or> cm \<noteq> None"
  shows "Blocked \<notin> set (snd (runs tm cm s ws))"
proof (induction ws arbitrary: s)
  case Nil
  show ?case by simp
next
  case (Cons w ws)
  obtain s' e where se: "script tm cm s w = (s', e)"
    by (cases "script tm cm s w")
  obtain s'' es where rs: "runs tm cm s' ws = (s'', es)"
    by (cases "runs tm cm s' ws")
  from script_not_blocked [OF assms, of s w] se have "e \<noteq> Blocked"
    by simp
  moreover from Cons.IH [of s'] rs have "Blocked \<notin> set es"
    by simp
  ultimately show ?case
    using se rs by auto
qed

lemma load_models_absent:
  assumes "tide_file st = Absent" and "coastal_file st = Absent"
  shows "load_models st =
     \<lparr>tide_model = None, coastal_model = None, load_calls = [],
      load_errors = [cross_mark @ '' tide_prediction.joblib not found'',
                     cross_mark @ '' coastal_risk_model.joblib not found'']\<rparr>"
  using assms by (simp add: load_models_def load_tide_def load_coastal_def)

lemma load_models_tide_unloadable:
  assumes "tide_file st = Unloadable e"
  shows "load_models st =
     \<lparr>tide_model = None, coastal_model = None,
      load_calls = [''tide_prediction.joblib''],
      load_errors = [''Error loading models: '' @ e]\<rparr>"
  using assms by (simp add: load_models_def load_tide_def)

text \<open>
  C6. When both files are absent, \<^verbatim>\<open>load_models\<close> returns no model and reports each
  file as not found. When \<^verbatim>\<open>load_models\<close> returns no model, every run of the session
  ends at the notice \<^verbatim>\<open>Model Files Missing\<close> and \<^verbatim>\<open>st.stop()\<close>, whatever the widgets
  send: the session state never changes and no report is rendered. When it returns at
  least one model, no run ends there: the page of the session is rendered.
\<close>

theorem both_models_missing_blocks:
  "(tide_file st = Absent \<and> coastal_file st = Absent \<longrightarrow>
      tide_model (load_models st) = None \<and> coastal_model (load_models st) = None \<and>
      load_errors (load_models st) =
        [cross_mark @ '' tide_prediction.joblib not found'',
         cross_mark @ '' coastal_risk_model.joblib not found'']) \<and>
   (tide_model (load_models st) = None \<and> coastal_model (load_models st) = None \<longrightarrow>
      app st s ws = (s, replicate (length ws) Blocked) \<and>
      (\<forall>d. Rendered (Some d) \<notin> set (snd (app st s ws)))) \<and>
   (tide_model (load_models st) \<noteq> None \<or> coastal_model (load_models st) \<noteq> None \<longrightarrow>
      Blocked \<notin> set (snd (app st s ws)))"
proof (intro conjI impI)
  assume a: "tide_file st = Absent \<and> coastal_file st = Absent"
  then have l: "load_models st =
     \<lparr>tide_model = None, coastal_model = None, load_calls = [],
      load_errors = [cross_mark @ '' tide_prediction.joblib not found'',
                     cross_mark @ '' coastal_risk_model.joblib not found'']\<rparr>"
    by (simp add: load_models_absent)
  show "tide_model (load_models st) = None" by (simp add: l)
  show "coastal_model (load_models st) = None" by (simp add: l)
  show "load_errors (load_models st) =
        [cross_mark @ '' tide_prediction.joblib not found'',
         cross_mark @ '' coastal_risk_model.joblib not found'']" by (simp add: l)
next
  assume n: "tide_model (load_models st) = None \<and> coastal_model (load_models st) = None"
  then show b: "app st s ws = (s, replicate (length ws) Blocked)"
    by (simp add: app_def Let_def runs_blocked)
  show "\<forall>d. Rendered (Some d) \<notin> set (snd (app st s ws))"
    by (simp add: b)
next
  assume "tide_model (load_models st) \<noteq> None \<or> coastal_model (load_models st) \<noteq> None"
  then show "Blocked \<notin> set (snd (app st s ws))"
    unfolding app_def Let_def by (rule runs_not_blocked)
qed

theorem both_models_missing_blocks_witness:
  "app \<lparr>tide_file = Absent, coastal_file = Absent\<rparr> initial_session
     [\<lparr>map_button = True, coordinates_button = False, nav_home = False,
       nav_home_coord = False, folium_installed = True, last_clicked = None,
       analyze_button = False, latitude_input = 53.3498, longitude_input = - 6.2603\<rparr>,
      \<lparr>map_button = False, coordinates_button = False, nav_home = False,
       nav_home_coord = False, folium_installed = True, last_clicked = None,
       analyze_button = True, latitude_input = 53.3498, longitude_input = - 6.2603\<rparr>] =
     (initial_session, [Blocked, Blocked]) \<and>
   snd (app \<lparr>tide_file = Loadable (\<lambda>p. Returns (Finite 2.6)), coastal_file = Absent\<rparr>
     initial_session
     [\<lparr>map_button = True, coordinates_button = False, nav_home = False,
       nav_home_coord = False, folium_installed = True, last_clicked = None,
       analyze_button = False, latitude_input = 53.3498, longitude_input = - 6.2603\<rparr>,
      \<lparr>map_button = False, coordinates_button = False, nav_home = False,
       nav_home_coord = False, folium_installed = True, last_clicked = None,
       analyze_button = True, latitude_input = 53.3498, longitude_input = - 6.2603\<rparr>]) =
     [Rerun,
      Rendered (Some \<lparr>tide_card = Some \<lparr>tide_score = Finite 2.6, tide_level = ''High'',
                         tide_color = red_circle, tide_class = ''risk-high''\<rparr>,
                      coastal_card = None, overall_card = None\<rparr>)] \<and>
   Blocked \<notin> set (snd (app \<lparr>tide_file = Loadable (\<lambda>p. Returns (Finite 2.6)),
       coastal_file = Absent\<rparr> initial_session
     [\<lparr>map_button = True, coordinates_button = False, nav_home = False,
       nav_home_coord = False, folium_installed = True, last_clicked = None,
       analyze_button = False, latitude_input = 53.3498, longitude_input = - 6.2603\<rparr>,
      \<lparr>map_button = False, coordinates_button = False, nav_home = False,
       nav_home_coord = False, folium_installed = True, last_clicked = None,
       analyze_button = True, latitude_input = 53.3498, longitude_input = - 6.2603\<rparr>]))"
proof -
  let ?ws = "[\<lparr>map_button = True, coordinates_button = False, nav_home = False,
       nav_home_coord = False, folium_installed = True, last_clicked = None,
       analyze_button = False, latitude_input = 53.3498, longitude_input = - 6.2603\<rparr>,
      \<lparr>map_button = False, coordinates_button = False, nav_home = False,
       nav_home_coord = False, folium_installed = True, last_clicked = None,
       analyze_button = True, latitude_input = 53.3498, longitude_input = - 6.2603\<rparr>]"
  have "app \<lparr>tide_file = Absent, coastal_file = Absent\<rparr> initial_session ?ws =
      (initial_session, [Blocked, Blocked])"
    using both_models_missing_blocks
      [of "\<lparr>tide_file = Absent, coastal_file = Absent\<rparr>" initial_session ?ws]
    by simp
  moreover have "snd (app \<lparr>tide_file = Loadable (\<lambda>p. Returns (Finite 2.6)),
      coastal_file = Absent\<rparr> initial_session ?ws) =
     [Rerun,
      Rendered (Some \<lparr>tide_card = Some \<lparr>tide_score = Finite 2.6, tide_level = ''High'',
                         tide_color = red_circle, tide_class = ''risk-high''\<rparr>,
                      coastal_card = None, overall_card = None\<rparr>)]"
    by (simp add: app_def load_models_def load_tide_def load_coastal_def script_def
        initial_session_def home_page_def map_page_def map_click_def
        display_prediction_results_def make_predictions_def attempt_def tide_entry_def)
  moreover have "Blocked \<notin> set (snd (app \<lparr>tide_file = Loadable (\<lambda>p. Returns (Finite 2.6)),
      coastal_file = Absent\<rparr> initial_session ?ws))"
    using both_models_missing_blocks
      [of "\<lparr>tide_file = Loadable (\<lambda>p. Returns (Finite 2.6)), coastal_file = Absent\<rparr>"
        initial_session ?ws]
    by (simp add: load_models_def load_tide_def load_coastal_def)
  ultimately show ?thesis by simp
qed

text \<open>
  C9. When the tide file exists and loading it raises, \<^verbatim>\<open>joblib.load\<close> is called for
  the tide file only, both models come back as \<^verbatim>\<open>None\<close>, the message of the exception
  is shown, and every run of the session is blocked, whatever the coastal file is.
\<close>

theorem tide_load_failure_blocks:
  assumes "tide_file st = Unloadable e"
  shows "load_models st =
           \<lparr>tide_model = None, coastal_model = None,
            load_calls = [''tide_prediction.joblib''],
            load_errors = [''Error loading models: '' @ e]\<rparr> \<and>
         ''coastal_risk_model.joblib'' \<notin> set (load_calls (load_models st)) \<and>
         app st s ws = (s, replicate (length ws) Blocked)"
  using assms
  by (simp add: load_models_tide_unloadable app_def runs_blocked)

theorem tide_load_failure_blocks_witness:
  "load_models \<lparr>tide_file = Unloadable ''invalid load key'',
                coastal_file = Loadable (\<lambda>p. Returns ''High'')\<rparr> =
     \<lparr>tide_model = None, coastal_model = None,
      load_calls = [''tide_prediction.joblib''],
      load_errors = [''Error loading models: invalid load key'']\<rparr> \<and>
   app \<lparr>tide_file = Unloadable ''invalid load key'',
        coastal_file = Loadable (\<lambda>p. Returns ''High'')\<rparr> initial_session
     [\<lparr>map_button = True, coordinates_button = False, nav_home = False,
       nav_home_coord = False, folium_installed = True, last_clicked = None,
       analyze_button = False, latitude_input = 53.3498, longitude_input = - 6.2603\<rparr>] =
     (initial_session, [Blocked])"
  using tide_load_failure_blocks
    [of "\<lparr>tide_file = Unloadable ''invalid load key'',
          coastal_file = Loadable (\<lambda>p. Returns ''High'')\<rparr>" "''invalid load key''"
      initial_session
      "[\<lparr>map_button = True, coordinates_button = False, nav_home = False,
       nav_home_coord = False, folium_installed = True, last_clicked = None,
       analyze_button = False, latitude_input = 53.3498, longitude_input = - 6.2603\<rparr>]"]
  by simp

subsection \<open>Map clicks\<close>

lemma map_click_nonzero:
  assumes "click_lat c \<noteq> 0" and "click_lng c \<noteq> 0"
  shows "map_click (Some c) s =
           (s\<lparr>latitude := click_lat c, longitude := click_lng c\<rparr>, True)"
  using assms by (simp add: map_click_def truthy_def)

text \<open>
  C10. The click handler leaves the session state as it is, and does not call
  \<^verbatim>\<open>st.rerun()\<close>, when there is no click or when the latitude or the longitude of the
  click is \<^verbatim>\<open>0.0\<close>: the handler tests the truth value of the two floats. The same
  holds of a whole run of the script on the map page when the back button is not pressed.
\<close>

theorem zero_click_ignored:
  "map_click None s = (s, False) \<and>
   (click_lat c = 0 \<or> click_lng c = 0 \<longrightarrow> map_click (Some c) s = (s, False)) \<and>
   (page s = ''map'' \<and> \<not> nav_home w \<and>
    (last_clicked w = None \<or>
     (\<exists>k. last_clicked w = Some k \<and> (click_lat k = 0 \<or> click_lng k = 0))) \<longrightarrow>
      fst (script tm cm s w) = s \<and> snd (script tm cm s w) \<noteq> Rerun)"
proof (intro conjI impI)
  show "map_click None s = (s, False)"
    by (simp add: map_click_def)
  show "map_click (Some c) s = (s, False)" if "click_lat c = 0 \<or> click_lng c = 0"
    using that by (auto simp: map_click_def truthy_def)
next
  assume a: "page s = ''map'' \<and> \<not> nav_home w \<and>
    (last_clicked w = None \<or>
     (\<exists>k. last_clicked w = Some k \<and> (click_lat k = 0 \<or> click_lng k = 0)))"
  then have mc: "map_click (last_clicked w) s = (s, False)"
    by (auto simp: map_click_def truthy_def)
  from a mc show "fst (script tm cm s w) = s"
    by (simp add: script_def map_page_def)
  from a mc show "snd (script tm cm s w) \<noteq> Rerun"
    by (simp add: script_def map_page_def)
qed

theorem zero_click_ignored_witness:
  "map_click (Some \<lparr>click_lat = 0, click_lng = - 6.2603\<rparr>) (initial_session\<lparr>page := ''map''\<rparr>) =
     (initial_session\<lparr>page := ''map''\<rparr>, False) \<and>
   fst (script (Some (\<lambda>p. Returns (Finite 2.6))) None (initial_session\<lparr>page := ''map''\<rparr>)
     \<lparr>map_button = False, coordinates_button = False, nav_home = False,
      nav_home_coord = False, folium_installed = True,
      last_clicked = Some \<lparr>click_lat = 51.4779, click_lng = 0\<rparr>,
      analyze_button = False, latitude_input = 53.3498, longitude_input = - 6.2603\<rparr>) =
     initial_session\<lparr>page := ''map''\<rparr>"
  using zero_click_ignored
    [of "initial_session\<lparr>page := ''map''\<rparr>" "\<lparr>click_lat = 0, click_lng = - 6.2603\<rparr>"
      "\<lparr>map_button = False, coordinates_button = False, nav_home = False,
      nav_home_coord = False, folium_installed = True,
      last_clicked = Some \<lparr>click_lat = 51.4779, click_lng = 0\<rparr>,
      analyze_button = False, latitude_input = 53.3498, longitude_input = - 6.2603\<rparr>"
      "Some (\<lambda>p. Returns (Finite 2.6))" None]
  by (simp add: initial_session_def)

text \<open>
  C8. A click on the map page at latitude \<^verbatim>\<open>0.0\<close> and longitude \<^verbatim>\<open>-6.2603\<close>, with both
  models loaded, is not stored: the session keeps the coordinate it had and the run goes
  on to the footer. A click a ten-thousandth of a degree to the north is stored and the
  page stays the map page (\<open>map_click_nonzero\<close> is the general fact); the coordinates
  page stores the latitude \<^verbatim>\<open>0.0\<close> when it is typed in.
\<close>

theorem equator_click_not_stored:
  "map_click (Some \<lparr>click_lat = 0, click_lng = - 6.2603\<rparr>) (initial_session\<lparr>page := ''map''\<rparr>) =
     (initial_session\<lparr>page := ''map''\<rparr>, False) \<and>
   script (Some (\<lambda>p. Returns (Finite 2.6))) (Some (\<lambda>p. Returns ''Low''))
     (initial_session\<lparr>page := ''map''\<rparr>)
     \<lparr>map_button = False, coordinates_button = False, nav_home = False,
      nav_home_coord = False, folium_installed = True,
      last_clicked = Some \<lparr>click_lat = 0, click_lng = - 6.2603\<rparr>,
      analyze_button = False, latitude_input = 53.3498, longitude_input = - 6.2603\<rparr> =
     (\<lparr>page = ''map'', latitude = 53.3498, longitude = - 6.2603\<rparr>, Rendered None) \<and>
   script (Some (\<lambda>p. Returns (Finite 2.6))) (Some (\<lambda>p. Returns ''Low''))
     (initial_session\<lparr>page := ''map''\<rparr>)
     \<lparr>map_button = False, coordinates_button = False, nav_home = False,
      nav_home_coord = False, folium_installed = True,
      last_clicked = Some \<lparr>click_lat = 0.0001, click_lng = - 6.2603\<rparr>,
      analyze_button = False, latitude_input = 53.3498, longitude_input = - 6.2603\<rparr> =
     (\<lparr>page = ''map'', latitude = 0.0001, longitude = - 6.2603\<rparr>, Rerun) \<and>
   script (Some (\<lambda>p. Returns (Finite 2.6))) (Some (\<lambda>p. Returns ''Low''))
     (initial_session\<lparr>page := ''coordinates''\<rparr>)
     \<lparr>map_button = False, coordinates_button = False, nav_home = False,
      nav_home_coord = False, folium_installed = True, last_clicked = None,
      analyze_button = False, latitude_input = 0, longitude_input = - 6.2603\<rparr> =
     (\<lparr>page = ''coordinates'', latitude = 0, longitude = - 6.2603\<rparr>, Rendered None)"
  by (simp add: script_def map_page_def coordinates_page_def map_click_def truthy_def
      initial_session_def)

end
